theory Spec2Isabelle
  imports Main
begin

section \<open>Python values used by app.py\<close>

text \<open>
  A Python \<open>str\<close> is a sequence of Unicode code points; a code point is a natural
  number. Slicing, \<open>in\<close>, \<open>strip\<close>, \<open>replace\<close> and \<open>rsplit\<close> all work on
  code points, so \<open>length\<close> below is Python's \<open>len\<close>.
\<close>

type_synonym pystr = "nat list"

text \<open>An ASCII literal of the source, as code points.\<close>

definition cp :: "string \<Rightarrow> pystr" where
  "cp s = map of_char s"

text \<open>
  The exceptions that can arise in the modelled code. \<open>KeyboardInterrupt\<close> and
  \<open>SystemExit\<close> derive from \<open>BaseException\<close> only; the others are instances of
  \<open>Exception\<close>, which is the class the handlers of app.py name.
\<close>

datatype exn =
    OSError | UnicodeEncodeError | TypeError | IndexError | AttributeError
  | JSONDecodeError | APIError | KeyboardInterrupt | SystemExit

fun is_Exception :: "exn \<Rightarrow> bool" where
  "is_Exception KeyboardInterrupt = False"
| "is_Exception SystemExit = False"
| "is_Exception x = True"

text \<open>
  The values that \<open>json.loads\<close> produces, and that therefore can reach
  \<open>category\<close> and \<open>reply\<close>: \<open>None\<close>, booleans, numbers (kept as the text of
  their literal; the program never inspects them), strings, lists and dictionaries
  (in insertion order).
\<close>

datatype pyval =
    PNone
  | PBool bool
  | PNum pystr
  | PStr pystr
  | PList "pyval list"
  | PDict "(pystr \<times> pyval) list"

text \<open>
  \<open>try: body except Exception as e: handler\<close>. An exception that is not an
  instance of \<open>Exception\<close> is not caught and goes on to the caller.
\<close>

definition try_except :: "exn + 'a \<Rightarrow> (exn \<Rightarrow> exn + 'a) \<Rightarrow> exn + 'a" where
  "try_except body handler =
     (case body of
        Inl e \<Rightarrow> if is_Exception e then handler e else Inl e
      | Inr v \<Rightarrow> Inr v)"

subsection \<open>String operations\<close>

text \<open>\<open>t.startswith(p)\<close> and \<open>p in t\<close> for strings.\<close>

fun startswith :: "pystr \<Rightarrow> pystr \<Rightarrow> bool" where
  "startswith [] t = True"
| "startswith (a # p) [] = False"
| "startswith (a # p) (c # t) = (a = c \<and> startswith p t)"

fun contains :: "pystr \<Rightarrow> pystr \<Rightarrow> bool" where
  "contains p [] = (p = [])"
| "contains p (c # cs) = (startswith p (c # cs) \<or> contains p cs)"

text \<open>
  \<open>str.isspace\<close> for one code point: CPython's whitespace table
  (\<open>_PyUnicode_IsWhitespace\<close>), the characters that \<open>str.strip()\<close> removes.
\<close>

definition isspace :: "nat \<Rightarrow> bool" where
  "isspace c \<longleftrightarrow>
     (0x09 \<le> c \<and> c \<le> 0x0D) \<or> (0x1C \<le> c \<and> c \<le> 0x20) \<or> c = 0x85 \<or> c = 0xA0 \<or>
     c = 0x1680 \<or> (0x2000 \<le> c \<and> c \<le> 0x200A) \<or> c = 0x2028 \<or> c = 0x2029 \<or>
     c = 0x202F \<or> c = 0x205F \<or> c = 0x3000"

definition strip :: "pystr \<Rightarrow> pystr" where
  "strip s = rev (dropWhile isspace (rev (dropWhile isspace s)))"

text \<open>\<open>s.replace("\n", " ")\<close>: both strings have length one.\<close>

definition replace_nl :: "pystr \<Rightarrow> pystr" where
  "replace_nl s = map (\<lambda>c. if c = 10 then 32 else c) s"

text \<open>
  \<open>s.rsplit(sep, 1)\<close> for a separator of length one: split at the last occurrence,
  or the whole string in a one-element list when there is none.
\<close>

definition rsplit1 :: "nat \<Rightarrow> pystr \<Rightarrow> pystr list" where
  "rsplit1 sep s =
     (if sep \<in> set s
      then [rev (tl (dropWhile (\<lambda>c. c \<noteq> sep) (rev s))), rev (takeWhile (\<lambda>c. c \<noteq> sep) (rev s))]
      else [s])"

text \<open>\<open>xs[i]\<close> for a non-negative index.\<close>

definition index_list :: "'a list \<Rightarrow> nat \<Rightarrow> exn + 'a" where
  "index_list xs i = (if i < length xs then Inr (xs ! i) else Inl IndexError)"

text \<open>\<open>d.get(k, default)\<close>\<close>

definition dict_get :: "(pystr \<times> pyval) list \<Rightarrow> pystr \<Rightarrow> pyval \<Rightarrow> pyval" where
  "dict_get d k dflt = (case map_of d k of Some v \<Rightarrow> v | None \<Rightarrow> dflt)"

text \<open>
  \<open>str.lower\<close> on ASCII text. The full Unicode case mapping is a table of the Python
  runtime and is a field of the environment below; this function is that mapping on
  texts of ASCII characters and is used for concrete runs.
\<close>

definition lower_ascii :: "pystr \<Rightarrow> pystr" where
  "lower_ascii s = map (\<lambda>c. if 65 \<le> c \<and> c \<le> 90 then c + 32 else c) s"

section \<open>The environment of a call\<close>

record audit_entry =
  ts :: pystr
  categoria :: pyval
  snippet :: pystr

text \<open>
  What a call of the program reads from outside its own code:
  \<^item> \<open>lower\<close>: \<open>str.lower\<close> of the runtime;
  \<^item> \<open>openai_available\<close>: whether \<open>import openai\<close> succeeded at start-up;
  \<^item> \<open>api_key\<close>: \<open>os.getenv("OPENAI_API_KEY")\<close>;
  \<^item> \<open>chat_completion\<close>: the remote call on a prompt together with the lookup
    \<open>resp["choices"][0]["message"]["content"]\<close>: the content, or the exception raised;
  \<^item> \<open>json_loads\<close>: \<open>json.loads\<close>;
  \<^item> \<open>log_writable\<close>: whether opening the log file for appending and writing the
    line succeeds;
  \<^item> \<open>now\<close>: \<open>datetime.datetime.now().isoformat()\<close>.
\<close>

record env =
  lower :: "pystr \<Rightarrow> pystr"
  openai_available :: bool
  api_key :: "pystr option"
  chat_completion :: "pystr \<Rightarrow> exn + pyval"
  json_loads :: "pystr \<Rightarrow> exn + pyval"
  log_writable :: bool
  now :: pystr

section \<open>File-name check\<close>

definition ALLOWED_EXTENSIONS :: "pystr set" where
  "ALLOWED_EXTENSIONS = {cp ''txt'', cp ''pdf''}"

definition allowed_file :: "env \<Rightarrow> pystr \<Rightarrow> exn + bool" where
  "allowed_file e filename =
     (if \<not> contains (cp ''.'') filename then Inr False
      else case index_list (rsplit1 46 filename) 1 of
             Inl x \<Rightarrow> Inl x
           | Inr ext \<Rightarrow> Inr (lower e ext \<in> ALLOWED_EXTENSIONS))"

section \<open>Audit log\<close>

text \<open>
  The log file is the list of the entries written so far, oldest first. An entry holds
  the three values that \<open>registrar_log\<close> formats into one line.
  \<open>(texto or "")\<close> is \<open>texto\<close> for a string.

  The file is opened with \<open>encoding="utf-8"\<close>, so \<open>f.write\<close> raises
  \<open>UnicodeEncodeError\<close> when the line holds a lone surrogate (a code point from
  U+D800 to U+DFFF), the only code points of a string that UTF-8 cannot encode. The
  timestamp is ASCII. The f-string formats the category with \<open>str\<close>: a string as
  itself; \<open>None\<close>, a boolean or a number as ASCII text; a list or a dictionary
  through \<open>repr\<close>, which writes a surrogate inside it as an escape. So the line can
  be encoded exactly when the snippet holds no surrogate and the category is not a string
  that holds one.
\<close>

type_synonym audit_log = "audit_entry list"

definition encodable :: "pystr \<Rightarrow> bool" where
  "encodable s = list_all (\<lambda>c. \<not> (0xD800 \<le> c \<and> c \<le> 0xDFFF)) s"

fun cat_encodable :: "pyval \<Rightarrow> bool" where
  "cat_encodable (PStr s) = encodable s"
| "cat_encodable v = True"

text \<open>
  \<open>with open(LOG_FILE, "a", encoding="utf-8") as f: ... f.write(...)\<close>: opening or
  writing the file fails with \<open>OSError\<close> when the file is not writable, and encoding
  the line fails as described above; a failed write leaves the file as it was.
\<close>

definition write_line :: "env \<Rightarrow> audit_entry \<Rightarrow> audit_log \<Rightarrow> exn + audit_log" where
  "write_line e entry log =
     (if \<not> log_writable e then Inl OSError
      else if \<not> (cat_encodable (categoria entry) \<and> encodable (snippet entry))
      then Inl UnicodeEncodeError
      else Inr (log @ [entry]))"

text \<open>Every failure of the write is caught inside \<open>registrar_log\<close>, which only warns.\<close>

definition registrar_log :: "env \<Rightarrow> pystr \<Rightarrow> pyval \<Rightarrow> audit_log \<Rightarrow> exn + audit_log" where
  "registrar_log e texto cat log =
     try_except
       (write_line e \<lparr>ts = now e, categoria = cat, snippet = replace_nl (take 200 texto)\<rparr> log)
       (\<lambda>x. Inr log)"

text \<open>\<open>registrar_log(texto, categoria); return categoria, resposta\<close>\<close>

definition log_and_return ::
  "env \<Rightarrow> pystr \<Rightarrow> pyval \<Rightarrow> pyval \<Rightarrow> audit_log \<Rightarrow> exn + ((pyval \<times> pyval) \<times> audit_log)" where
  "log_and_return e texto cat resposta log =
     (case registrar_log e texto cat log of
        Inl x \<Rightarrow> Inl x
      | Inr log' \<Rightarrow> Inr ((cat, resposta), log'))"

section \<open>Keyword classifier (fallback)\<close>

definition Produtivo :: pystr where
  "Produtivo = cp ''Produtivo''"

definition Improdutivo :: pystr where
  "Improdutivo = cp ''Improdutivo''"

text \<open>The two keyword lists, in source order. 231, 227, 243, 233 are the code points of
  c-cedilla, a-tilde, o-acute and e-acute.\<close>

definition palavras_produtivas :: "pystr list" where
  "palavras_produtivas =
     [cp ''status'', cp ''erro'', cp ''problema'', cp ''ajuda'',
      cp ''solicita'' @ [231, 227] @ cp ''o'', cp ''solicitacao'',
      cp ''anexo'', cp ''relat'' @ [243] @ cp ''rio'', cp ''relatorio'', cp ''suporte'',
      cp ''ticket'', cp ''falha'', cp ''incidente'', cp ''reuni'' @ [227] @ cp ''o'',
      cp ''reuniao'', cp ''agendar'', cp ''urgente'', cp ''pendente'']"

definition palavras_improdutivas :: "pystr list" where
  "palavras_improdutivas =
     [cp ''obrigado'', cp ''obrigada'', cp ''feliz natal'', cp ''boas festas'',
      cp ''parab'' @ [233] @ cp ''ns'', cp ''parabens'', cp ''abra'' @ [231] @ cp ''os'']"

text \<open>The four replies of the source (225, 250, 237: a-acute, u-acute, i-acute).\<close>

definition resposta_vazio :: pystr where
  "resposta_vazio = cp ''Obrigado pela mensagem!''"

definition resposta_produtivo :: pystr where
  "resposta_produtivo =
     cp ''Ol'' @ [225] @ cp '', recebemos seu e-mail. Agradecemos o contato e iremos verificar sua solicita''
     @ [231, 227] @ cp ''o. ''
     @ cp ''Retornaremos no prazo de um dia '' @ [250] @ cp ''til. Se poss'' @ [237]
     @ cp ''vel, envie mais detalhes ou anexe arquivos relevantes.''"

definition resposta_cortesia :: pystr where
  "resposta_cortesia = cp ''Agrade'' @ [231] @ cp ''o a mensagem e o contato!''"

definition resposta_padrao :: pystr where
  "resposta_padrao = cp ''Agrade'' @ [231] @ cp ''o o contato!''"

text \<open>\<open>for p in palavras: if p in t: ... return\<close>: whether the loop reaches its return.\<close>

fun any_keyword :: "pystr list \<Rightarrow> pystr \<Rightarrow> bool" where
  "any_keyword [] t = False"
| "any_keyword (p # ps) t = (if contains p t then True else any_keyword ps t)"

definition classificar_fallback ::
  "env \<Rightarrow> pystr \<Rightarrow> audit_log \<Rightarrow> exn + ((pyval \<times> pyval) \<times> audit_log)" where
  "classificar_fallback e texto log =
     (if texto = [] \<or> strip texto = []
      then log_and_return e texto (PStr Improdutivo) (PStr resposta_vazio) log
      else
        let t = lower e texto in
        if any_keyword palavras_produtivas t
        then log_and_return e texto (PStr Produtivo) (PStr resposta_produtivo) log
        else if any_keyword palavras_improdutivas t
        then log_and_return e texto (PStr Improdutivo) (PStr resposta_cortesia) log
        else log_and_return e texto (PStr Improdutivo) (PStr resposta_padrao) log)"

section \<open>Remote classifier adapter\<close>

subsection \<open>The regular expression\<close>

text \<open>
  \<open>re.search(r"\{.*\}", conteudo, re.DOTALL)\<close>. The pattern is a sequence of literal
  characters and \<open>.*\<close>, which under \<open>re.DOTALL\<close> matches any run of characters and is
  greedy: the matcher first lets it take one more character and only when the rest of
  the pattern then fails lets it stop. \<open>match_here\<close> is the match at the start of the
  text, \<open>re_search\<close> tries the start positions from left to right; both return the
  matched text, \<open>m.group(0)\<close>.
\<close>

datatype rx = Lit nat | AnyStar

fun match_here :: "rx list \<Rightarrow> pystr \<Rightarrow> pystr option" where
  "match_here [] s = Some []"
| "match_here (Lit c # r) [] = None"
| "match_here (Lit c # r) (x # xs) =
     (if x = c then map_option ((#) x) (match_here r xs) else None)"
| "match_here (AnyStar # r) [] = match_here r []"
| "match_here (AnyStar # r) (x # xs) =
     (case match_here (AnyStar # r) xs of
        Some m \<Rightarrow> Some (x # m)
      | None \<Rightarrow> match_here r (x # xs))"

fun re_search :: "rx list \<Rightarrow> pystr \<Rightarrow> pystr option" where
  "re_search r [] = match_here r []"
| "re_search r (x # xs) =
     (case match_here r (x # xs) of
        Some m \<Rightarrow> Some m
      | None \<Rightarrow> re_search r xs)"

text \<open>The pattern of the source: an opening brace (123), anything, a closing brace (125).\<close>

definition json_span :: "rx list" where
  "json_span = [Lit 123, AnyStar, Lit 125]"

subsection \<open>The adapter\<close>

text \<open>The prompt (39: apostrophe, 10: newline, 34: double quote, 234: e-circumflex).\<close>

definition prompt :: "pystr \<Rightarrow> pystr" where
  "prompt texto =
     cp ''Classifique o e-mail abaixo em '' @ [39] @ cp ''Produtivo'' @ [39] @ cp '' ou ''
       @ [39] @ cp ''Improdutivo'' @ [39] @ cp '' ''
     @ cp ''e gere uma resposta apropriada em portugu'' @ [234] @ cp ''s. ''
     @ cp ''Retorne a sa'' @ [237] @ cp ''da no formato JSON com chaves: category e reply.'' @ [10, 10]
     @ cp ''E-mail:'' @ [10] @ texto @ [10, 10]
     @ cp ''Exemplo de sa'' @ [237] @ cp ''da: {'' @ [34] @ cp ''category'' @ [34] @ cp '': ''
       @ [34] @ cp ''Produtivo'' @ [34] @ cp '', '' @ [34] @ cp ''reply'' @ [34] @ cp '': ''
       @ [34] @ cp ''...'' @ [34] @ cp ''}''"

text \<open>
  The body of the \<open>try\<close> block. A content that is not a string makes \<open>re.search\<close>
  raise \<open>TypeError\<close>; a parsed value that is not a dictionary has no \<open>get\<close>.
\<close>

definition remote_body ::
  "env \<Rightarrow> pystr \<Rightarrow> audit_log \<Rightarrow> exn + ((pyval \<times> pyval) option \<times> audit_log)" where
  "remote_body e texto log =
     (case chat_completion e (prompt texto) of
        Inl x \<Rightarrow> Inl x
      | Inr (PStr conteudo) \<Rightarrow>
          (case re_search json_span conteudo of
             Some m \<Rightarrow>
               (case json_loads e m of
                  Inl x \<Rightarrow> Inl x
                | Inr (PDict parsed) \<Rightarrow>
                    (let category = dict_get parsed (cp ''category'') (PStr Produtivo);
                         reply = dict_get parsed (cp ''reply'') (PStr [])
                     in case registrar_log e texto category log of
                          Inl x \<Rightarrow> Inl x
                        | Inr log' \<Rightarrow> Inr (Some (category, reply), log'))
                | Inr _ \<Rightarrow> Inl AttributeError)
           | None \<Rightarrow>
               (case registrar_log e texto (PStr Produtivo) log of
                  Inl x \<Rightarrow> Inl x
                | Inr log' \<Rightarrow> Inr (Some (PStr Produtivo, PStr conteudo), log')))
      | Inr _ \<Rightarrow> Inl TypeError)"

text \<open>\<open>not api_key\<close> holds for \<open>None\<close> and for the empty string.\<close>

definition classificar_com_openai ::
  "env \<Rightarrow> pystr \<Rightarrow> audit_log \<Rightarrow> exn + ((pyval \<times> pyval) option \<times> audit_log)" where
  "classificar_com_openai e texto log =
     (if \<not> openai_available e then Inr (None, log)
      else if api_key e = None \<or> api_key e = Some [] then Inr (None, log)
      else try_except (remote_body e texto log) (\<lambda>x. Inr (None, log)))"

section \<open>Orchestrator\<close>

text \<open>\<open>if res:\<close> holds exactly when \<open>res\<close> is not \<open>None\<close>: a pair is never falsy.\<close>

definition classificar_email ::
  "env \<Rightarrow> pystr \<Rightarrow> audit_log \<Rightarrow> exn + ((pyval \<times> pyval) \<times> audit_log)" where
  "classificar_email e texto log =
     (case classificar_com_openai e texto log of
        Inl x \<Rightarrow> Inl x
      | Inr (Some res, log') \<Rightarrow> Inr (res, log')
      | Inr (None, log') \<Rightarrow> classificar_fallback e texto log')"

section \<open>Concrete environments\<close>

text \<open>
  Environments for running the definitions on concrete inputs. All texts used with
  them consist of ASCII characters and characters without case, where \<open>lower_ascii\<close>
  is \<open>str.lower\<close>.
  \<^item> \<open>env_local\<close>: the openai library is not installed, the log file is writable;
  \<^item> \<open>env_readonly\<close>: as \<open>env_local\<close>, but the log file cannot be opened;
  \<^item> \<open>env_api_down\<close>: library and key are present, the remote call raises an
    instance of \<open>Exception\<close>;
  \<^item> \<open>env_interrupted\<close>: library and key are present, the remote call is
    interrupted from the keyboard;
  \<^item> \<open>env_reply_only\<close>: the remote model answers
    \<^verbatim>\<open>Segue: {"reply": "ok"} fim\<close>;
  \<^item> \<open>env_category_only\<close>: the remote model answers
    \<^verbatim>\<open>{"category": "Improdutivo"}\<close>;
  \<^item> \<open>env_plain_text\<close>: the remote model answers \<^verbatim>\<open>Produtivo\<close>, without braces;
  \<^item> \<open>env_bad_json\<close>: the remote model answers \<^verbatim>\<open>{oops}\<close>, which
    \<open>json.loads\<close> rejects.
  The \<open>json_loads\<close> of each environment is \<open>json.loads\<close> on the one text it is
  called with there.
\<close>

definition env_local :: env where
  "env_local =
     \<lparr>lower = lower_ascii, openai_available = False, api_key = None,
      chat_completion = (\<lambda>p. Inl APIError), json_loads = (\<lambda>s. Inl JSONDecodeError),
      log_writable = True, now = cp ''2024-01-01T00:00:00''\<rparr>"

definition env_readonly :: env where
  "env_readonly = env_local\<lparr>log_writable := False\<rparr>"

definition env_api_down :: env where
  "env_api_down = env_local\<lparr>openai_available := True, api_key := Some (cp ''sk-test'')\<rparr>"

definition env_interrupted :: env where
  "env_interrupted = env_api_down\<lparr>chat_completion := (\<lambda>p. Inl KeyboardInterrupt)\<rparr>"

definition json_reply_only :: pystr where
  "json_reply_only = cp ''{'' @ [34] @ cp ''reply'' @ [34] @ cp '': '' @ [34] @ cp ''ok'' @ [34] @ cp ''}''"

definition env_reply_only :: env where
  "env_reply_only = env_api_down
     \<lparr>chat_completion := (\<lambda>p. Inr (PStr (cp ''Segue: '' @ json_reply_only @ cp '' fim''))),
      json_loads := (\<lambda>s. if s = json_reply_only
                          then Inr (PDict [(cp ''reply'', PStr (cp ''ok''))])
                          else Inl JSONDecodeError)\<rparr>"

definition json_category_only :: pystr where
  "json_category_only =
     cp ''{'' @ [34] @ cp ''category'' @ [34] @ cp '': '' @ [34] @ cp ''Improdutivo'' @ [34] @ cp ''}''"

definition env_category_only :: env where
  "env_category_only = env_api_down
     \<lparr>chat_completion := (\<lambda>p. Inr (PStr json_category_only)),
      json_loads := (\<lambda>s. if s = json_category_only
                          then Inr (PDict [(cp ''category'', PStr Improdutivo)])
                          else Inl JSONDecodeError)\<rparr>"

definition env_plain_text :: env where
  "env_plain_text = env_api_down\<lparr>chat_completion := (\<lambda>p. Inr (PStr (cp ''Produtivo'')))\<rparr>"

definition env_bad_json :: env where
  "env_bad_json = env_api_down\<lparr>chat_completion := (\<lambda>p. Inr (PStr (cp ''{oops}'')))\<rparr>"

section \<open>Facts about the string operations\<close>

lemma startswith_iff: "startswith p t \<longleftrightarrow> (\<exists>post. t = p @ post)"
  by (induction p t rule: startswith.induct) auto

lemma contains_iff: "contains p t \<longleftrightarrow> (\<exists>pre post. t = pre @ p @ post)"
proof (induction t)
  case Nil
  then show ?case by simp
next
  case (Cons c cs)
  show ?case
  proof
    assume "contains p (c # cs)"
    then consider "startswith p (c # cs)" | "contains p cs" by auto
    then show "\<exists>pre post. c # cs = pre @ p @ post"
    proof cases
      case 1
      then obtain post where "c # cs = p @ post" by (auto simp: startswith_iff)
      then have "c # cs = [] @ p @ post" by simp
      then show ?thesis by blast
    next
      case 2
      with Cons obtain pre post where "cs = pre @ p @ post" by auto
      then have "c # cs = (c # pre) @ p @ post" by simp
      then show ?thesis by blast
    qed
  next
    assume "\<exists>pre post. c # cs = pre @ p @ post"
    then obtain pre post where eq: "c # cs = pre @ p @ post" by auto
    show "contains p (c # cs)"
    proof (cases pre)
      case Nil
      with eq have "startswith p (c # cs)" by (auto simp: startswith_iff)
      then show ?thesis by simp
    next
      case (Cons a pre')
      with eq have "cs = pre' @ p @ post" by simp
      with Cons.IH have "contains p cs" by blast
      then show ?thesis by simp
    qed
  qed
qed

lemma contains_set: "contains p t \<Longrightarrow> set p \<subseteq> set t"
  by (auto simp: contains_iff)

lemma any_keyword_iff: "any_keyword ps t \<longleftrightarrow> (\<exists>p \<in> set ps. contains p t)"
  by (induction ps) auto

lemma all_dropWhile: "(\<forall>x \<in> set (dropWhile P s). P x) \<longleftrightarrow> (\<forall>x \<in> set s. P x)"
  by (induction s) auto

lemma strip_empty_iff: "strip s = [] \<longleftrightarrow> (\<forall>c \<in> set s. isspace c)"
  by (simp add: strip_def dropWhile_eq_Nil_conv all_dropWhile)

lemma rsplit1_append:
  "sep \<notin> set ext \<Longrightarrow> rsplit1 sep (pre @ [sep] @ ext) = [pre, ext]"
proof -
  assume ext: "sep \<notin> set ext"
  have t: "takeWhile (\<lambda>c. c \<noteq> sep) (rev ext @ sep # rev pre) = rev ext"
    using ext by (subst takeWhile_append2) auto
  have d: "dropWhile (\<lambda>c. c \<noteq> sep) (rev ext @ sep # rev pre) = sep # rev pre"
    using ext by (subst dropWhile_append2) auto
  show ?thesis by (simp add: rsplit1_def t d)
qed

lemma contains_dot: "contains (cp ''.'') s \<longleftrightarrow> 46 \<in> set s"
  by (induction s) (auto simp: cp_def)

section \<open>The file-name check\<close>

lemma allowed_file_split:
  assumes "46 \<notin> set ext"
  shows "allowed_file e (pre @ [46] @ ext) = Inr (lower e ext \<in> ALLOWED_EXTENSIONS)"
  using assms rsplit1_append [of 46 ext pre]
  by (simp add: allowed_file_def contains_dot index_list_def)

text \<open>
  Claim C10. \<open>allowed_file\<close> raises nothing and accepts a file name exactly when the
  name contains a dot (code point 46) and the text after its last dot, lower-cased, is
  \<open>txt\<close> or \<open>pdf\<close>. The text after the last dot is the \<open>ext\<close> of the one way of
  writing the name as \<open>pre @ [46] @ ext\<close> with no dot in \<open>ext\<close>.
\<close>

theorem allowed_file_last_extension:
  "allowed_file e filename =
     Inr (\<exists>pre ext. filename = pre @ [46] @ ext \<and> 46 \<notin> set ext \<and>
            lower e ext \<in> {cp ''txt'', cp ''pdf''})"
proof (cases "46 \<in> set filename")
  case False
  then have "allowed_file e filename = Inr False"
    by (simp add: allowed_file_def contains_dot)
  moreover have "\<not> (\<exists>pre ext. filename = pre @ [46] @ ext \<and> 46 \<notin> set ext \<and>
            lower e ext \<in> {cp ''txt'', cp ''pdf''})"
    using False by auto
  ultimately show ?thesis by simp
next
  case True
  then obtain pre ext where f: "filename = pre @ [46] @ ext" and ext: "46 \<notin> set ext"
    using split_list_last [of 46 filename] by auto
  have uniq: "ext' = ext" if "filename = pre' @ [46] @ ext'" "46 \<notin> set ext'" for pre' ext'
    using rsplit1_append [of 46 ext' pre'] rsplit1_append [of 46 ext pre] that f ext by simp
  have "allowed_file e filename = Inr (lower e ext \<in> ALLOWED_EXTENSIONS)"
    using allowed_file_split [OF ext] f by simp
  moreover have "(\<exists>pre ext. filename = pre @ [46] @ ext \<and> 46 \<notin> set ext \<and>
            lower e ext \<in> {cp ''txt'', cp ''pdf''}) \<longleftrightarrow> lower e ext \<in> ALLOWED_EXTENSIONS"
    using f ext uniq unfolding ALLOWED_EXTENSIONS_def by blast
  ultimately show ?thesis by simp
qed

text \<open>
  The examples of the claim: \<open>A.TXT\<close> and \<open>a.exe.txt\<close> have an allowed last extension,
  the dotless \<open>relatorio\<close> and \<open>a.txt.exe\<close> have none.
\<close>

theorem allowed_file_last_extension_witness:
  "(\<exists>pre ext. cp ''A.TXT'' = pre @ [46] @ ext \<and> 46 \<notin> set ext \<and>
       lower env_local ext \<in> {cp ''txt'', cp ''pdf''}) \<and>
   (\<exists>pre ext. cp ''a.exe.txt'' = pre @ [46] @ ext \<and> 46 \<notin> set ext \<and>
       lower env_local ext \<in> {cp ''txt'', cp ''pdf''}) \<and>
   \<not> (\<exists>pre ext. cp ''relatorio'' = pre @ [46] @ ext \<and> 46 \<notin> set ext \<and>
       lower env_local ext \<in> {cp ''txt'', cp ''pdf''}) \<and>
   \<not> (\<exists>pre ext. cp ''a.txt.exe'' = pre @ [46] @ ext \<and> 46 \<notin> set ext \<and>
       lower env_local ext \<in> {cp ''txt'', cp ''pdf''})"
proof -
  have 1: "allowed_file env_local (cp ''A.TXT'') = Inr True"
    by (simp add: allowed_file_def env_local_def cp_def rsplit1_def index_list_def
        lower_ascii_def ALLOWED_EXTENSIONS_def)
  have 2: "allowed_file env_local (cp ''a.exe.txt'') = Inr True"
    by (simp add: allowed_file_def env_local_def cp_def rsplit1_def index_list_def
        lower_ascii_def ALLOWED_EXTENSIONS_def)
  have 3: "allowed_file env_local (cp ''relatorio'') = Inr False"
    by (simp add: allowed_file_def env_local_def cp_def rsplit1_def index_list_def
        lower_ascii_def ALLOWED_EXTENSIONS_def)
  have 4: "allowed_file env_local (cp ''a.txt.exe'') = Inr False"
    by (simp add: allowed_file_def env_local_def cp_def rsplit1_def index_list_def
        lower_ascii_def ALLOWED_EXTENSIONS_def)
  show ?thesis
    using 1 2 3 4
      allowed_file_last_extension [of env_local "cp ''A.TXT''"]
      allowed_file_last_extension [of env_local "cp ''a.exe.txt''"]
      allowed_file_last_extension [of env_local "cp ''relatorio''"]
      allowed_file_last_extension [of env_local "cp ''a.txt.exe''"]
    by (simp only: sum.inject simp_thms)
qed

section \<open>Running the definitions\<close>

lemmas run_defs = classificar_email_def classificar_com_openai_def remote_body_def
  classificar_fallback_def log_and_return_def registrar_log_def write_line_def encodable_def
  try_except_def dict_get_def Produtivo_def Improdutivo_def
  env_local_def env_readonly_def env_api_down_def env_reply_only_def env_category_only_def
  env_interrupted_def
  env_plain_text_def env_bad_json_def json_reply_only_def json_category_only_def json_span_def
  cp_def strip_def isspace_def lower_ascii_def palavras_produtivas_def palavras_improdutivas_def
  replace_nl_def Let_def

section \<open>The audit log and the keyword classifier\<close>

lemma upd_same: "e\<lparr>log_writable := log_writable e\<rparr> = e"
  by simp

lemma registrar_log_eq:
  "registrar_log e texto cat log =
     Inr (if log_writable e \<and> cat_encodable cat \<and> encodable (replace_nl (take 200 texto))
          then log @ [\<lparr>ts = now e, categoria = cat, snippet = replace_nl (take 200 texto)\<rparr>]
          else log)"
  by (simp add: registrar_log_def write_line_def try_except_def)

lemma log_and_return_eq:
  "log_and_return e texto cat resposta log =
     Inr ((cat, resposta),
          if log_writable e \<and> cat_encodable cat \<and> encodable (replace_nl (take 200 texto))
          then log @ [\<lparr>ts = now e, categoria = cat, snippet = replace_nl (take 200 texto)\<rparr>]
          else log)"
  by (simp add: log_and_return_def registrar_log_eq)

lemma encodable_blank:
  assumes "\<forall>c \<in> set texto. isspace c"
  shows "encodable (replace_nl (take 200 texto))"
proof -
  have "\<not> (0xD800 \<le> c \<and> c \<le> 0xDFFF)" if "isspace c" for c
    using that by (auto simp: isspace_def)
  moreover have "isspace (if c = 10 then 32 else c)" if "isspace c" for c
    using that by (simp add: isspace_def)
  moreover have "set (take 200 texto) \<subseteq> set texto" by (rule set_take_subset)
  ultimately show ?thesis
    using assms by (auto simp: encodable_def replace_nl_def list_all_iff)
qed

lemma categorias_encodable:
  "encodable Produtivo" "encodable Improdutivo"
  by (simp_all add: encodable_def Produtivo_def Improdutivo_def cp_def)

lemma blank_iff: "texto = [] \<or> strip texto = [] \<longleftrightarrow> (\<forall>c \<in> set texto. isspace c)"
  by (auto simp: strip_empty_iff)

lemma fallback_blank:
  "\<forall>c \<in> set texto. isspace c \<Longrightarrow>
   classificar_fallback e texto log =
     log_and_return e texto (PStr Improdutivo) (PStr resposta_vazio) log"
proof -
  assume "\<forall>c \<in> set texto. isspace c"
  then have "texto = [] \<or> strip texto = []"
    by (simp only: blank_iff)
  then show ?thesis
    unfolding classificar_fallback_def by (simp only: if_True)
qed

lemma fallback_not_blank:
  "\<not> (\<forall>c \<in> set texto. isspace c) \<Longrightarrow>
   classificar_fallback e texto log =
     (if any_keyword palavras_produtivas (lower e texto)
      then log_and_return e texto (PStr Produtivo) (PStr resposta_produtivo) log
      else if any_keyword palavras_improdutivas (lower e texto)
      then log_and_return e texto (PStr Improdutivo) (PStr resposta_cortesia) log
      else log_and_return e texto (PStr Improdutivo) (PStr resposta_padrao) log)"
proof -
  assume "\<not> (\<forall>c \<in> set texto. isspace c)"
  then have "\<not> (texto = [] \<or> strip texto = [])"
    by (simp only: blank_iff not_False_eq_True)
  then show ?thesis
    by (simp add: classificar_fallback_def Let_def)
qed

lemma keyword_iff:
  "any_keyword ps t \<longleftrightarrow> (\<exists>p \<in> set ps. \<exists>pre post. t = pre @ p @ post)"
  by (simp add: any_keyword_iff contains_iff)

lemma produtivas_not_blank:
  "p \<in> set palavras_produtivas \<Longrightarrow> \<exists>c \<in> set p. \<not> isspace c"
  by (auto simp: palavras_produtivas_def cp_def isspace_def)

lemma categorias_distinct: "Improdutivo \<noteq> Produtivo"
  by (simp add: Improdutivo_def Produtivo_def cp_def)
lemma respostas_distinct: "resposta_cortesia \<noteq> resposta_padrao"
  by (simp add: resposta_cortesia_def resposta_padrao_def cp_def)

lemma respostas_not_empty:
  "resposta_vazio \<noteq> []" "resposta_produtivo \<noteq> []" "resposta_cortesia \<noteq> []"
  "resposta_padrao \<noteq> []"
  by (simp_all add: resposta_vazio_def resposta_produtivo_def resposta_cortesia_def
      resposta_padrao_def cp_def)

lemma fallback_reply_not_empty:
  "\<exists>cat reply log'. classificar_fallback e texto log = Inr ((cat, PStr reply), log') \<and> reply \<noteq> []"
proof (cases "\<forall>c \<in> set texto. isspace c")
  case True
  then show ?thesis by (simp add: fallback_blank log_and_return_eq respostas_not_empty)
next
  case False
  then show ?thesis by (simp add: fallback_not_blank log_and_return_eq respostas_not_empty)
qed


text \<open>
  Claim C1. Whenever the lower-cased text contains a keyword of \<open>palavras_produtivas\<close> as
  a substring, \<open>classificar_fallback\<close> returns \<open>Produtivo\<close> with the standard
  acknowledgment reply. Nothing is assumed about the courtesy keywords: the productive list
  is scanned first, so the result is the same whether or not a courtesy keyword occurs, and
  wherever it occurs. The second premise is a fact about \<open>str.lower\<close>, which is a
  parameter here: it leaves a text made of whitespace only unchanged (whitespace has no
  case), so such a text, which the first test of the function catches, has no keyword.
\<close>

theorem classificar_fallback_produtivo_wins:
  assumes kw: "\<exists>p \<in> set palavras_produtivas. \<exists>pre post. lower e texto = pre @ p @ post"
    and ws: "(\<forall>c \<in> set texto. isspace c) \<longrightarrow> lower e texto = texto"
  shows "\<exists>log'. classificar_fallback e texto log =
           Inr ((PStr Produtivo, PStr resposta_produtivo), log')"
proof -
  from kw obtain p pre post where p: "p \<in> set palavras_produtivas"
    and eq: "lower e texto = pre @ p @ post" by blast
  from produtivas_not_blank [OF p] obtain c where c: "c \<in> set p" "\<not> isspace c" by blast
  have nb: "\<not> (\<forall>c \<in> set texto. isspace c)"
  proof
    assume b: "\<forall>c \<in> set texto. isspace c"
    with ws eq have "texto = pre @ p @ post" by simp
    with c(1) have "c \<in> set texto" by simp
    with b c(2) show False by blast
  qed
  from kw have "any_keyword palavras_produtivas (lower e texto)"
    by (simp add: keyword_iff)
  with nb show ?thesis
    by (simp add: fallback_not_blank log_and_return_eq)
qed

text \<open>
  A text with the courtesy keyword \<open>obrigado\<close> first and the productive keyword
  \<open>status\<close>, in upper case, later.
\<close>

theorem classificar_fallback_produtivo_wins_witness:
  "(\<exists>p \<in> set palavras_produtivas. \<exists>pre post.
       lower env_local (cp ''Obrigado! Qual o STATUS do pedido?'') = pre @ p @ post) \<and>
   (\<exists>p \<in> set palavras_improdutivas. \<exists>pre post.
       lower env_local (cp ''Obrigado! Qual o STATUS do pedido?'') = pre @ p @ post) \<and>
   (\<exists>log'. classificar_fallback env_local (cp ''Obrigado! Qual o STATUS do pedido?'') [] =
       Inr ((PStr Produtivo, PStr resposta_produtivo), log'))"
proof -
  have "any_keyword palavras_produtivas
          (lower env_local (cp ''Obrigado! Qual o STATUS do pedido?''))"
    by (simp add: run_defs)
  then have k: "\<exists>p \<in> set palavras_produtivas. \<exists>pre post.
       lower env_local (cp ''Obrigado! Qual o STATUS do pedido?'') = pre @ p @ post"
    unfolding keyword_iff .
  have "any_keyword palavras_improdutivas
          (lower env_local (cp ''Obrigado! Qual o STATUS do pedido?''))"
    by (simp add: run_defs)
  then have c: "\<exists>p \<in> set palavras_improdutivas. \<exists>pre post.
       lower env_local (cp ''Obrigado! Qual o STATUS do pedido?'') = pre @ p @ post"
    unfolding keyword_iff .
  have w: "(\<forall>c \<in> set (cp ''Obrigado! Qual o STATUS do pedido?''). isspace c) \<longrightarrow>
       lower env_local (cp ''Obrigado! Qual o STATUS do pedido?'') =
       cp ''Obrigado! Qual o STATUS do pedido?''"
    by (simp add: cp_def isspace_def)
  from classificar_fallback_produtivo_wins [OF k w, of "[]"] k c show ?thesis by blast
qed

text \<open>
  Claim C4, as amended. For a text that is empty or made of whitespace only,
  \<open>classificar_fallback\<close> returns \<open>Improdutivo\<close> with the reply
  \<open>Obrigado pela mensagem!\<close>, and appends one audit entry for it when the log file can
  be written; when it cannot, nothing is appended.
\<close>

theorem classificar_fallback_blank:
  assumes "\<forall>c \<in> set texto. isspace c"
  shows "classificar_fallback e texto log =
     Inr ((PStr Improdutivo, PStr resposta_vazio),
          if log_writable e
          then log @ [\<lparr>ts = now e, categoria = PStr Improdutivo,
                        snippet = map (\<lambda>c. if c = 10 then 32 else c) (take 200 texto)\<rparr>]
          else log)"
proof -
  have "classificar_fallback e texto log =
     Inr ((PStr Improdutivo, PStr resposta_vazio),
          if log_writable e
          then log @ [\<lparr>ts = now e, categoria = PStr Improdutivo,
                        snippet = replace_nl (take 200 texto)\<rparr>]
          else log)"
    by (simp add: fallback_blank [OF assms] log_and_return_eq encodable_blank [OF assms]
        categorias_encodable)
  then show ?thesis by (simp only: replace_nl_def)
qed

text \<open>
  With a log file that cannot be opened, the classification of a blank text appends nothing.
\<close>

theorem classificar_fallback_blank_unwritable_log:
  "classificar_fallback env_readonly (cp ''   '') [] =
     Inr ((PStr Improdutivo, PStr resposta_vazio), [])"
  by (simp add: run_defs)

text \<open>A text of spaces, a newline and a tab, and the empty text.\<close>

theorem classificar_fallback_blank_witness:
  "classificar_fallback env_local [32, 10, 9, 32] [] =
     Inr ((PStr Improdutivo, PStr resposta_vazio),
          [\<lparr>ts = now env_local, categoria = PStr Improdutivo, snippet = [32, 32, 9, 32]\<rparr>]) \<and>
   classificar_fallback env_local [] [] =
     Inr ((PStr Improdutivo, PStr resposta_vazio),
          [\<lparr>ts = now env_local, categoria = PStr Improdutivo, snippet = []\<rparr>])"
proof -
  have h1: "\<forall>c \<in> set [32, 10, 9, 32]. isspace c" by (simp add: isspace_def)
  have h2: "\<forall>c \<in> set ([] :: nat list). isspace c" by simp
  have a: "log_writable env_local" by (simp add: env_local_def)
  from classificar_fallback_blank [OF h1, of env_local "[]"] classificar_fallback_blank [OF h2, of env_local "[]"] a
  show ?thesis by simp
qed

text \<open>
  Claim C5. For a text that is not empty and not whitespace only, and whose lower-cased
  form contains no productive keyword, \<open>classificar_fallback\<close> returns
  \<open>Improdutivo\<close>, which is not \<open>Produtivo\<close>: with the courtesy reply when a
  keyword of \<open>palavras_improdutivas\<close> is a substring, and with the default reply, a
  different text, otherwise.
\<close>

theorem classificar_fallback_improdutivo:
  assumes nb: "\<not> (\<forall>c \<in> set texto. isspace c)"
    and nk: "\<not> (\<exists>p \<in> set palavras_produtivas. \<exists>pre post. lower e texto = pre @ p @ post)"
  shows "(\<exists>log'. classificar_fallback e texto log =
           Inr ((PStr Improdutivo,
                 PStr (if \<exists>p \<in> set palavras_improdutivas. \<exists>pre post. lower e texto = pre @ p @ post
                       then resposta_cortesia else resposta_padrao)), log')) \<and>
         Improdutivo \<noteq> Produtivo \<and> resposta_cortesia \<noteq> resposta_padrao"
proof -
  from nk have "\<not> any_keyword palavras_produtivas (lower e texto)"
    by (simp add: keyword_iff)
  with nb show ?thesis
    by (simp add: fallback_not_blank log_and_return_eq keyword_iff categorias_distinct
        respostas_distinct)
qed

text \<open>A courtesy text and a text without any keyword.\<close>

theorem classificar_fallback_improdutivo_witness:
  "(\<exists>log'. classificar_fallback env_local (cp ''Muito obrigado, feliz natal!'') [] =
       Inr ((PStr Improdutivo, PStr resposta_cortesia), log')) \<and>
   (\<exists>log'. classificar_fallback env_local (cp ''Bom dia'') [] =
       Inr ((PStr Improdutivo, PStr resposta_padrao), log'))"
proof -
  have nb1: "\<not> (\<forall>c \<in> set (cp ''Muito obrigado, feliz natal!''). isspace c)"
    by (simp add: cp_def isspace_def)
  have "\<not> any_keyword palavras_produtivas (lower env_local (cp ''Muito obrigado, feliz natal!''))"
    by (simp add: run_defs)
  then have nk1: "\<not> (\<exists>p \<in> set palavras_produtivas. \<exists>pre post.
      lower env_local (cp ''Muito obrigado, feliz natal!'') = pre @ p @ post)"
    unfolding keyword_iff .
  have "any_keyword palavras_improdutivas (lower env_local (cp ''Muito obrigado, feliz natal!''))"
    by (simp add: run_defs)
  then have c1: "\<exists>p \<in> set palavras_improdutivas. \<exists>pre post.
      lower env_local (cp ''Muito obrigado, feliz natal!'') = pre @ p @ post"
    unfolding keyword_iff .
  have nb2: "\<not> (\<forall>c \<in> set (cp ''Bom dia''). isspace c)"
    by (simp add: cp_def isspace_def)
  have "\<not> any_keyword palavras_produtivas (lower env_local (cp ''Bom dia''))"
    by (simp add: run_defs)
  then have nk2: "\<not> (\<exists>p \<in> set palavras_produtivas. \<exists>pre post.
      lower env_local (cp ''Bom dia'') = pre @ p @ post)"
    unfolding keyword_iff .
  have "\<not> any_keyword palavras_improdutivas (lower env_local (cp ''Bom dia''))"
    by (simp add: run_defs)
  then have c2: "\<not> (\<exists>p \<in> set palavras_improdutivas. \<exists>pre post.
      lower env_local (cp ''Bom dia'') = pre @ p @ post)"
    unfolding keyword_iff .
  from classificar_fallback_improdutivo [OF nb1 nk1, of "[]", THEN conjunct1] classificar_fallback_improdutivo [OF nb2 nk2, of "[]", THEN conjunct1] c1 c2
  show ?thesis by (simp only: if_True if_False simp_thms)
qed

text \<open>
  Claim C9. For every string, whatever its code points and its length,
  \<open>classificar_fallback\<close> raises nothing and returns a pair of two strings whose first
  component is \<open>Produtivo\<close> or \<open>Improdutivo\<close>.
\<close>

theorem classificar_fallback_total:
  "\<exists>cat reply log'. classificar_fallback e texto log = Inr ((PStr cat, PStr reply), log') \<and>
      (cat = Produtivo \<or> cat = Improdutivo)"
proof (cases "\<forall>c \<in> set texto. isspace c")
  case True
  then show ?thesis by (simp add: fallback_blank log_and_return_eq)
next
  case False
  then show ?thesis by (simp add: fallback_not_blank log_and_return_eq)
qed

text \<open>A text of control characters and code points outside the basic plane.\<close>

theorem classificar_fallback_total_witness:
  "\<exists>cat reply log'. classificar_fallback env_local [0, 65533, 1114111, 7, 33] [] =
      Inr ((PStr cat, PStr reply), log') \<and> (cat = Produtivo \<or> cat = Improdutivo)"
  by (rule classificar_fallback_total)

section \<open>The regular expression\<close>

lemma star_brace_none: "125 \<notin> set s \<Longrightarrow> match_here [AnyStar, Lit 125] s = None"
  by (induction s) auto

lemma star_brace_last:
  "125 \<notin> set post \<Longrightarrow> match_here [AnyStar, Lit 125] (mid @ 125 # post) = Some (mid @ [125])"
  by (induction mid) (auto simp: star_brace_none)

lemma re_search_skip:
  "123 \<notin> set pre \<Longrightarrow> re_search json_span (pre @ s) = re_search json_span s"
  by (induction pre) (auto simp: json_span_def)

lemma brace_span_found:
  assumes "123 \<notin> set pre" "125 \<notin> set post"
  shows "re_search json_span (pre @ [123] @ mid @ [125] @ post) = Some ([123] @ mid @ [125])"
proof -
  have "re_search json_span (pre @ [123] @ mid @ [125] @ post)
          = re_search json_span (123 # mid @ 125 # post)"
    using re_search_skip [OF assms(1), of "[123] @ mid @ [125] @ post"] by simp
  also have "\<dots> = Some ([123] @ mid @ [125])"
    using star_brace_last [OF assms(2), of mid] by (simp add: json_span_def)
  finally show ?thesis .
qed

lemma brace_span_shape:
  "re_search json_span s = Some m \<Longrightarrow> \<exists>pre mid post. s = pre @ [123] @ mid @ [125] @ post"
proof (induction s)
  case Nil
  then show ?case by (simp add: json_span_def)
next
  case (Cons x xs)
  show ?case
  proof (cases "match_here json_span (x # xs)")
    case None
    with Cons.prems have "re_search json_span xs = Some m" by simp
    from Cons.IH [OF this] obtain pre mid post where "xs = pre @ [123] @ mid @ [125] @ post"
      by blast
    then have "x # xs = (x # pre) @ [123] @ mid @ [125] @ post" by simp
    then show ?thesis by blast
  next
    case (Some m')
    then have x: "x = 123" and nn: "match_here [AnyStar, Lit 125] xs \<noteq> None"
      by (auto simp: json_span_def split: if_splits)
    have "125 \<in> set xs"
    proof (rule ccontr)
      assume "125 \<notin> set xs"
      from star_brace_none [OF this] nn show False by contradiction
    qed
    then obtain mid post where "xs = mid @ 125 # post"
      using split_list [of 125 xs] by blast
    with x have "x # xs = [] @ [123] @ mid @ [125] @ post" by simp
    then show ?thesis by blast
  qed
qed

lemma brace_span_none:
  "\<not> (\<exists>pre mid post. s = pre @ [123] @ mid @ [125] @ post) \<Longrightarrow> re_search json_span s = None"
proof (cases "re_search json_span s")
  case None
  then show ?thesis .
next
  case (Some m)
  assume "\<not> (\<exists>pre mid post. s = pre @ [123] @ mid @ [125] @ post)"
  with brace_span_shape [OF Some] show ?thesis by blast
qed

section \<open>The remote adapter and the orchestrator\<close>

lemma remote_unconfigured:
  "\<not> openai_available e \<or> api_key e = None \<or> api_key e = Some [] \<Longrightarrow>
   classificar_com_openai e texto log = Inr (None, log)"
  by (auto simp: classificar_com_openai_def)

lemma remote_configured:
  "openai_available e \<Longrightarrow> api_key e = Some k \<Longrightarrow> k \<noteq> [] \<Longrightarrow>
   classificar_com_openai e texto log =
     try_except (remote_body e texto log) (\<lambda>x. Inr (None, log))"
  by (simp add: classificar_com_openai_def)


lemma remote_shape:
  "(\<forall>b log0. classificar_com_openai (e\<lparr>log_writable := b\<rparr>) texto log0 = Inr (None, log0)) \<or>
   (\<exists>x. \<not> is_Exception x \<and>
      (chat_completion e (prompt texto) = Inl x \<or>
       (\<exists>conteudo m. chat_completion e (prompt texto) = Inr (PStr conteudo) \<and>
          re_search json_span conteudo = Some m \<and> json_loads e m = Inl x)) \<and>
      (\<forall>b log0. classificar_com_openai (e\<lparr>log_writable := b\<rparr>) texto log0 = Inl x)) \<or>
   (\<exists>cat reply. \<forall>b log0. classificar_com_openai (e\<lparr>log_writable := b\<rparr>) texto log0 =
      Inr (Some (cat, reply),
           if b \<and> cat_encodable cat \<and> encodable (replace_nl (take 200 texto))
           then log0 @ [\<lparr>ts = now e, categoria = cat, snippet = replace_nl (take 200 texto)\<rparr>]
           else log0))"
  (is "?N \<or> ?X \<or> ?S")
proof (cases "\<not> openai_available e \<or> api_key e = None \<or> api_key e = Some []")
  case True
  then have ?N by (auto simp: classificar_com_openai_def)
  then show ?thesis by (rule disjI1)
next
  case False
  then have cfg: "classificar_com_openai (e\<lparr>log_writable := b\<rparr>) texto log0 =
     try_except (remote_body (e\<lparr>log_writable := b\<rparr>) texto log0) (\<lambda>x. Inr (None, log0))"
    for b log0
    by (auto simp: classificar_com_openai_def)
  have caught: ?N
    if "\<And>b log0. remote_body (e\<lparr>log_writable := b\<rparr>) texto log0 = Inl x" "is_Exception x" for x
    using that by (simp add: cfg try_except_def)
  have passed: "\<forall>b log0. classificar_com_openai (e\<lparr>log_writable := b\<rparr>) texto log0 = Inl x"
    if "\<And>b log0. remote_body (e\<lparr>log_writable := b\<rparr>) texto log0 = Inl x" "\<not> is_Exception x" for x
    using that by (simp add: cfg try_except_def)
  show ?thesis
  proof (cases "chat_completion e (prompt texto)")
    case (Inl x)
    then have body: "remote_body (e\<lparr>log_writable := b\<rparr>) texto log0 = Inl x" for b log0
      by (simp add: remote_body_def)
    show ?thesis
    proof (cases "is_Exception x")
      case True
      from caught [OF body True] show ?thesis by (rule disjI1)
    next
      case False
      with Inl passed [OF body False] have ?X by blast
      then show ?thesis by blast
    qed
  next
    case (Inr v)
    show ?thesis
    proof (cases "\<exists>conteudo. v = PStr conteudo")
      case False
      with Inr have body: "remote_body (e\<lparr>log_writable := b\<rparr>) texto log0 = Inl TypeError"
        for b log0
        by (cases v) (simp_all add: remote_body_def)
      from caught [OF body] show ?thesis by simp
    next
      case True
      then obtain conteudo where v: "v = PStr conteudo" by blast
      show ?thesis
      proof (cases "re_search json_span conteudo")
        case None
        with Inr v have "\<forall>b log0. classificar_com_openai (e\<lparr>log_writable := b\<rparr>) texto log0 =
          Inr (Some (PStr Produtivo, PStr conteudo),
           if b \<and> cat_encodable (PStr Produtivo) \<and> encodable (replace_nl (take 200 texto))
           then log0 @ [\<lparr>ts = now e, categoria = PStr Produtivo,
                          snippet = replace_nl (take 200 texto)\<rparr>]
           else log0)"
          by (simp add: cfg remote_body_def registrar_log_eq try_except_def)
        then have ?S by blast
        then show ?thesis by blast
      next
        case (Some m)
        show ?thesis
        proof (cases "json_loads e m")
          case (Inl x)
          with Inr v Some have body: "remote_body (e\<lparr>log_writable := b\<rparr>) texto log0 = Inl x"
            for b log0
            by (simp add: remote_body_def)
          show ?thesis
          proof (cases "is_Exception x")
            case True
            from caught [OF body True] show ?thesis by (rule disjI1)
          next
            case False
            with Inr v Some Inl passed [OF body False] have ?X by blast
            then show ?thesis by blast
          qed
        next
          case parsed: (Inr w)
          show ?thesis
          proof (cases "\<exists>d. w = PDict d")
            case False
            with Inr v Some parsed
            have body: "remote_body (e\<lparr>log_writable := b\<rparr>) texto log0 = Inl AttributeError"
              for b log0
              by (cases w) (simp_all add: remote_body_def)
            from caught [OF body] show ?thesis by simp
          next
            case True
            then obtain d where "w = PDict d" by blast
            with Inr v Some parsed
            have "\<forall>b log0. classificar_com_openai (e\<lparr>log_writable := b\<rparr>) texto log0 =
              Inr (Some (dict_get d (cp ''category'') (PStr Produtivo),
                         dict_get d (cp ''reply'') (PStr [])),
               if b \<and> cat_encodable (dict_get d (cp ''category'') (PStr Produtivo)) \<and>
                  encodable (replace_nl (take 200 texto))
               then log0 @ [\<lparr>ts = now e, categoria = dict_get d (cp ''category'') (PStr Produtivo),
                              snippet = replace_nl (take 200 texto)\<rparr>]
               else log0)"
              by (simp add: cfg remote_body_def registrar_log_eq try_except_def Let_def)
            then have ?S by blast
            then show ?thesis by blast
          qed
        qed
      qed
    qed
  qed
qed

lemma remote_parsed:
  assumes "openai_available e" "api_key e = Some k" "k \<noteq> []"
    and "chat_completion e (prompt texto) = Inr (PStr conteudo)"
    and "re_search json_span conteudo = Some m"
    and "json_loads e m = Inr (PDict d)"
  shows "classificar_com_openai e texto log =
     Inr (Some (dict_get d (cp ''category'') (PStr Produtivo), dict_get d (cp ''reply'') (PStr [])),
          if log_writable e \<and> cat_encodable (dict_get d (cp ''category'') (PStr Produtivo)) \<and>
             encodable (replace_nl (take 200 texto))
          then log @ [\<lparr>ts = now e, categoria = dict_get d (cp ''category'') (PStr Produtivo),
                        snippet = replace_nl (take 200 texto)\<rparr>]
          else log)"
  using assms
  by (simp add: classificar_com_openai_def try_except_def remote_body_def registrar_log_eq Let_def)

lemma remote_no_span:
  assumes "openai_available e" "api_key e = Some k" "k \<noteq> []"
    and "chat_completion e (prompt texto) = Inr (PStr conteudo)"
    and "re_search json_span conteudo = None"
  shows "classificar_com_openai e texto log =
     Inr (Some (PStr Produtivo, PStr conteudo),
          if log_writable e \<and> cat_encodable (PStr Produtivo) \<and>
             encodable (replace_nl (take 200 texto))
          then log @ [\<lparr>ts = now e, categoria = PStr Produtivo,
                        snippet = replace_nl (take 200 texto)\<rparr>]
          else log)"
  using assms
  by (simp add: classificar_com_openai_def try_except_def remote_body_def registrar_log_eq)

lemma remote_body_Some:
  assumes "remote_body e texto log = Inr (Some (cat, reply), log')"
  shows "\<exists>conteudo. chat_completion e (prompt texto) = Inr (PStr conteudo) \<and>
     ((re_search json_span conteudo = None \<and> reply = PStr conteudo) \<or>
      (\<exists>m d. re_search json_span conteudo = Some m \<and> json_loads e m = Inr (PDict d) \<and>
         reply = (case map_of d (cp ''reply'') of None \<Rightarrow> PStr [] | Some r \<Rightarrow> r)))"
proof (cases "chat_completion e (prompt texto)")
  case (Inl x)
  with assms show ?thesis by (simp add: remote_body_def)
next
  case (Inr v)
  show ?thesis
  proof (cases "\<exists>conteudo. v = PStr conteudo")
    case False
    with Inr assms show ?thesis by (cases v) (simp_all add: remote_body_def)
  next
    case True
    then obtain conteudo where v: "v = PStr conteudo" by blast
    show ?thesis
    proof (cases "re_search json_span conteudo")
      case None
      with Inr v assms show ?thesis by (auto simp: remote_body_def registrar_log_eq)
    next
      case (Some m)
      show ?thesis
      proof (cases "json_loads e m")
        case (Inl x)
        with Inr v Some assms show ?thesis by (simp add: remote_body_def)
      next
        case parsed: (Inr w)
        show ?thesis
        proof (cases "\<exists>d. w = PDict d")
          case False
          with Inr v Some parsed assms show ?thesis by (cases w) (simp_all add: remote_body_def)
        next
          case True
          then obtain d where "w = PDict d" by blast
          with Inr v Some parsed assms show ?thesis
            by (auto simp: remote_body_def registrar_log_eq Let_def dict_get_def)
        qed
      qed
    qed
  qed
qed

lemma remote_Some_body:
  assumes "classificar_com_openai e texto log = Inr (Some r, log')"
  shows "remote_body e texto log = Inr (Some r, log')"
proof (cases "\<not> openai_available e \<or> api_key e = None \<or> api_key e = Some []")
  case True
  from remote_unconfigured [OF this, of texto log] assms show ?thesis by simp
next
  case False
  then have "classificar_com_openai e texto log =
     try_except (remote_body e texto log) (\<lambda>x. Inr (None, log))"
    by (auto simp: classificar_com_openai_def)
  with assms show ?thesis
    by (cases "remote_body e texto log") (auto simp: try_except_def split: if_splits)
qed

text \<open>
  Claim C2. When the openai library is unavailable or \<open>OPENAI_API_KEY\<close> is absent (or
  empty), \<open>classificar_com_openai\<close> returns \<open>None\<close> for every text and leaves the
  log alone, and \<open>classificar_email\<close> is \<open>classificar_fallback\<close>: the same pair and
  the same log.
\<close>

theorem no_credential_uses_fallback:
  assumes "\<not> openai_available e \<or> api_key e = None \<or> api_key e = Some []"
  shows "classificar_com_openai e texto log = Inr (None, log) \<and>
         classificar_email e texto log = classificar_fallback e texto log"
  using remote_unconfigured [OF assms] by (simp add: classificar_email_def)

text \<open>The first end-to-end scenario of the specification, without the openai library.\<close>

theorem no_credential_uses_fallback_witness:
  "\<not> openai_available env_local \<and>
   classificar_com_openai env_local (cp ''Preciso de ajuda com um erro urgente no sistema'') [] =
     Inr (None, []) \<and>
   classificar_email env_local (cp ''Preciso de ajuda com um erro urgente no sistema'') [] =
     Inr ((PStr Produtivo, PStr resposta_produtivo),
          [\<lparr>ts = cp ''2024-01-01T00:00:00'', categoria = PStr Produtivo,
             snippet = cp ''Preciso de ajuda com um erro urgente no sistema''\<rparr>])"
proof -
  have h: "\<not> openai_available env_local \<or> api_key env_local = None \<or> api_key env_local = Some []"
    by (simp add: env_local_def)
  have run: "classificar_fallback env_local
        (cp ''Preciso de ajuda com um erro urgente no sistema'') [] =
     Inr ((PStr Produtivo, PStr resposta_produtivo),
          [\<lparr>ts = cp ''2024-01-01T00:00:00'', categoria = PStr Produtivo,
             snippet = cp ''Preciso de ajuda com um erro urgente no sistema''\<rparr>])"
    by (simp add: run_defs)
  have a: "\<not> openai_available env_local" by (simp add: env_local_def)
  from no_credential_uses_fallback [OF h, of "cp ''Preciso de ajuda com um erro urgente no sistema''" "[]"] run a
  show ?thesis by simp
qed




text \<open>
  Claim C6, as amended. \<open>classificar_com_openai\<close> never propagates an instance of
  \<open>Exception\<close>: the only exceptions that reach its caller are those outside
  \<open>Exception\<close> (\<open>KeyboardInterrupt\<close>, \<open>SystemExit\<close>) raised by the remote call or
  by \<open>json.loads\<close>, and with library and key present these do reach the caller, since
  the handler is \<open>except Exception\<close>. The adapter returns \<open>None\<close>, with the log
  untouched, when the library is unavailable, when the key is absent or empty, when the
  remote call raises an instance of \<open>Exception\<close>, when the content is not a string
  (\<open>re.search\<close> raises), when \<open>json.loads\<close> raises an instance of \<open>Exception\<close> on
  the extracted span, and when the parsed value is not a dictionary (\<open>get\<close> raises).
\<close>

theorem classificar_com_openai_never_raises:
  "(\<forall>x. classificar_com_openai e texto log = Inl x \<longrightarrow>
      \<not> is_Exception x \<and>
      (chat_completion e (prompt texto) = Inl x \<or>
       (\<exists>conteudo m. chat_completion e (prompt texto) = Inr (PStr conteudo) \<and>
          re_search json_span conteudo = Some m \<and> json_loads e m = Inl x))) \<and>
   (\<not> openai_available e \<longrightarrow> classificar_com_openai e texto log = Inr (None, log)) \<and>
   (api_key e = None \<or> api_key e = Some [] \<longrightarrow>
      classificar_com_openai e texto log = Inr (None, log)) \<and>
   (\<forall>x. chat_completion e (prompt texto) = Inl x \<and> is_Exception x \<longrightarrow>
      classificar_com_openai e texto log = Inr (None, log)) \<and>
   (\<forall>v. chat_completion e (prompt texto) = Inr v \<and> (\<forall>s. v \<noteq> PStr s) \<longrightarrow>
      classificar_com_openai e texto log = Inr (None, log)) \<and>
   (\<forall>conteudo m x. chat_completion e (prompt texto) = Inr (PStr conteudo) \<and>
        re_search json_span conteudo = Some m \<and> json_loads e m = Inl x \<and> is_Exception x \<longrightarrow>
      classificar_com_openai e texto log = Inr (None, log)) \<and>
   (\<forall>conteudo m v. chat_completion e (prompt texto) = Inr (PStr conteudo) \<and>
        re_search json_span conteudo = Some m \<and> json_loads e m = Inr v \<and> (\<forall>d. v \<noteq> PDict d) \<longrightarrow>
      classificar_com_openai e texto log = Inr (None, log)) \<and>
   (\<forall>k x. openai_available e \<and> api_key e = Some k \<and> k \<noteq> [] \<and> \<not> is_Exception x \<and>
        (chat_completion e (prompt texto) = Inl x \<or>
         (\<exists>conteudo m. chat_completion e (prompt texto) = Inr (PStr conteudo) \<and>
            re_search json_span conteudo = Some m \<and> json_loads e m = Inl x)) \<longrightarrow>
      classificar_com_openai e texto log = Inl x)"
proof -
  have propagated: "(\<forall>x. classificar_com_openai e texto log = Inl x \<longrightarrow>
        \<not> is_Exception x \<and>
        (chat_completion e (prompt texto) = Inl x \<or>
         (\<exists>conteudo m. chat_completion e (prompt texto) = Inr (PStr conteudo) \<and>
            re_search json_span conteudo = Some m \<and> json_loads e m = Inl x)))"
  proof (intro allI impI)
    fix x
    assume r: "classificar_com_openai e texto log = Inl x"
    have at_e: "classificar_com_openai (e\<lparr>log_writable := log_writable e\<rparr>) texto log =
        classificar_com_openai e texto log"
      by (simp only: upd_same)
    from remote_shape [of e texto]
    consider
      (none) "\<forall>b log0. classificar_com_openai (e\<lparr>log_writable := b\<rparr>) texto log0 = Inr (None, log0)"
    | (raised) y where "\<not> is_Exception y"
        "chat_completion e (prompt texto) = Inl y \<or>
         (\<exists>conteudo m. chat_completion e (prompt texto) = Inr (PStr conteudo) \<and>
            re_search json_span conteudo = Some m \<and> json_loads e m = Inl y)"
        "\<forall>b log0. classificar_com_openai (e\<lparr>log_writable := b\<rparr>) texto log0 = Inl y"
    | (some) cat reply where
        "\<forall>b log0. classificar_com_openai (e\<lparr>log_writable := b\<rparr>) texto log0 =
          Inr (Some (cat, reply),
             if b \<and> cat_encodable cat \<and> encodable (replace_nl (take 200 texto))
             then log0 @ [\<lparr>ts = now e, categoria = cat, snippet = replace_nl (take 200 texto)\<rparr>]
             else log0)"
      by blast
    then show "\<not> is_Exception x \<and>
        (chat_completion e (prompt texto) = Inl x \<or>
         (\<exists>conteudo m. chat_completion e (prompt texto) = Inr (PStr conteudo) \<and>
            re_search json_span conteudo = Some m \<and> json_loads e m = Inl x))"
    proof cases
      case none
      then have "classificar_com_openai (e\<lparr>log_writable := log_writable e\<rparr>) texto log =
          Inr (None, log)" by blast
      with at_e r show ?thesis by simp
    next
      case raised
      from raised(3) have "classificar_com_openai (e\<lparr>log_writable := log_writable e\<rparr>) texto log = Inl y"
        by blast
      with at_e r have "y = x" by simp
      with raised(1,2) show ?thesis by simp
    next
      case some
      then have "\<exists>l. classificar_com_openai (e\<lparr>log_writable := log_writable e\<rparr>) texto log =
          Inr (Some (cat, reply), l)" by blast
      with at_e r show ?thesis by simp
    qed
  qed
  have caught: "(\<not> openai_available e \<longrightarrow> classificar_com_openai e texto log = Inr (None, log)) \<and>
     (api_key e = None \<or> api_key e = Some [] \<longrightarrow>
        classificar_com_openai e texto log = Inr (None, log)) \<and>
     (\<forall>x. chat_completion e (prompt texto) = Inl x \<and> is_Exception x \<longrightarrow>
        classificar_com_openai e texto log = Inr (None, log)) \<and>
     (\<forall>v. chat_completion e (prompt texto) = Inr v \<and> (\<forall>s. v \<noteq> PStr s) \<longrightarrow>
        classificar_com_openai e texto log = Inr (None, log)) \<and>
     (\<forall>conteudo m x. chat_completion e (prompt texto) = Inr (PStr conteudo) \<and>
          re_search json_span conteudo = Some m \<and> json_loads e m = Inl x \<and> is_Exception x \<longrightarrow>
        classificar_com_openai e texto log = Inr (None, log)) \<and>
     (\<forall>conteudo m v. chat_completion e (prompt texto) = Inr (PStr conteudo) \<and>
          re_search json_span conteudo = Some m \<and> json_loads e m = Inr v \<and> (\<forall>d. v \<noteq> PDict d) \<longrightarrow>
        classificar_com_openai e texto log = Inr (None, log)) \<and>
     (\<forall>k x. openai_available e \<and> api_key e = Some k \<and> k \<noteq> [] \<and> \<not> is_Exception x \<and>
          (chat_completion e (prompt texto) = Inl x \<or>
           (\<exists>conteudo m. chat_completion e (prompt texto) = Inr (PStr conteudo) \<and>
              re_search json_span conteudo = Some m \<and> json_loads e m = Inl x)) \<longrightarrow>
        classificar_com_openai e texto log = Inl x)"
  proof (intro conjI allI impI)
    assume "\<not> openai_available e"
    then show "classificar_com_openai e texto log = Inr (None, log)"
      by (simp add: remote_unconfigured)
  next
    assume "api_key e = None \<or> api_key e = Some []"
    then show "classificar_com_openai e texto log = Inr (None, log)"
      by (simp add: remote_unconfigured)
  next
    fix x assume "chat_completion e (prompt texto) = Inl x \<and> is_Exception x"
    then show "classificar_com_openai e texto log = Inr (None, log)"
      by (simp add: classificar_com_openai_def try_except_def remote_body_def)
  next
    fix v assume "chat_completion e (prompt texto) = Inr v \<and> (\<forall>s. v \<noteq> PStr s)"
    then show "classificar_com_openai e texto log = Inr (None, log)"
      by (cases v) (simp_all add: classificar_com_openai_def try_except_def remote_body_def)
  next
    fix conteudo m x
    assume "chat_completion e (prompt texto) = Inr (PStr conteudo) \<and>
          re_search json_span conteudo = Some m \<and> json_loads e m = Inl x \<and> is_Exception x"
    then show "classificar_com_openai e texto log = Inr (None, log)"
      by (simp add: classificar_com_openai_def try_except_def remote_body_def)
  next
    fix conteudo m v
    assume "chat_completion e (prompt texto) = Inr (PStr conteudo) \<and>
          re_search json_span conteudo = Some m \<and> json_loads e m = Inr v \<and> (\<forall>d. v \<noteq> PDict d)"
    then show "classificar_com_openai e texto log = Inr (None, log)"
      by (cases v) (simp_all add: classificar_com_openai_def try_except_def remote_body_def)
  next
    fix k x
    assume "openai_available e \<and> api_key e = Some k \<and> k \<noteq> [] \<and> \<not> is_Exception x \<and>
          (chat_completion e (prompt texto) = Inl x \<or>
           (\<exists>conteudo m. chat_completion e (prompt texto) = Inr (PStr conteudo) \<and>
              re_search json_span conteudo = Some m \<and> json_loads e m = Inl x))"
    then show "classificar_com_openai e texto log = Inl x"
      by (auto simp: classificar_com_openai_def try_except_def remote_body_def)
  qed
  from propagated caught show ?thesis by (rule conjI)
qed

text \<open>
  A remote call interrupted from the keyboard: the exception is not an instance of
  \<open>Exception\<close>, the handler does not catch it, and it reaches the caller.
\<close>

theorem classificar_com_openai_interrupted:
  "classificar_com_openai env_interrupted (cp ''oi'') [] = Inl KeyboardInterrupt"
  by (simp add: run_defs)

text \<open>
  No library; a remote call that raises an instance of \<open>Exception\<close>; a span that
  \<open>json.loads\<close> rejects; a remote call interrupted from the keyboard.
\<close>

theorem classificar_com_openai_never_raises_witness:
  "\<not> openai_available env_local \<and>
   classificar_com_openai env_local (cp ''oi'') [] = Inr (None, []) \<and>
   chat_completion env_api_down (prompt (cp ''oi'')) = Inl APIError \<and>
   classificar_com_openai env_api_down (cp ''oi'') [] = Inr (None, []) \<and>
   chat_completion env_bad_json (prompt (cp ''oi'')) = Inr (PStr (cp ''{oops}'')) \<and>
   re_search json_span (cp ''{oops}'') = Some (cp ''{oops}'') \<and>
   json_loads env_bad_json (cp ''{oops}'') = Inl JSONDecodeError \<and>
   classificar_com_openai env_bad_json (cp ''oi'') [] = Inr (None, []) \<and>
   chat_completion env_interrupted (prompt (cp ''tchau'')) = Inl KeyboardInterrupt \<and>
   classificar_com_openai env_interrupted (cp ''tchau'') [] = Inl KeyboardInterrupt"
proof -
  have a: "\<not> openai_available env_local" by (simp add: env_local_def)
  have b: "chat_completion env_api_down (prompt (cp ''oi'')) = Inl APIError"
    "is_Exception APIError"
    by (simp_all add: env_api_down_def env_local_def)
  have c: "chat_completion env_bad_json (prompt (cp ''oi'')) = Inr (PStr (cp ''{oops}''))"
    by (simp add: env_bad_json_def env_api_down_def env_local_def)
  have d: "re_search json_span (cp ''{oops}'') = Some (cp ''{oops}'')"
    by (simp add: json_span_def cp_def)
  have e: "json_loads env_bad_json (cp ''{oops}'') = Inl JSONDecodeError"
    "is_Exception JSONDecodeError"
    by (simp_all add: env_bad_json_def env_api_down_def env_local_def)
  have f: "openai_available env_interrupted" "api_key env_interrupted = Some (cp ''sk-test'')"
    "cp ''sk-test'' \<noteq> []" "\<not> is_Exception KeyboardInterrupt"
    "chat_completion env_interrupted (prompt (cp ''tchau'')) = Inl KeyboardInterrupt"
    by (simp_all add: env_interrupted_def env_api_down_def env_local_def cp_def)
  have r1: "classificar_com_openai env_local (cp ''oi'') [] = Inr (None, [])"
    using classificar_com_openai_never_raises [of env_local "cp ''oi''" "[]"] a by blast
  have r2: "classificar_com_openai env_api_down (cp ''oi'') [] = Inr (None, [])"
    using classificar_com_openai_never_raises [of env_api_down "cp ''oi''" "[]"] b by blast
  have r3: "classificar_com_openai env_bad_json (cp ''oi'') [] = Inr (None, [])"
    using classificar_com_openai_never_raises [of env_bad_json "cp ''oi''" "[]"] c d e by blast
  have r4: "classificar_com_openai env_interrupted (cp ''tchau'') [] = Inl KeyboardInterrupt"
    using classificar_com_openai_never_raises [of env_interrupted "cp ''tchau''" "[]"] f by blast
  from a r1 b(1) r2 c d e(1) r3 f(5) r4 show ?thesis by simp
qed

text \<open>
  Claim C7. With library and key present and a response text \<open>conteudo\<close>:
  \<^item> if \<open>conteudo\<close> is \<open>pre @ [123] @ mid @ [125] @ post\<close> with no opening brace in
    \<open>pre\<close> and no closing brace in \<open>post\<close>, the regular expression finds the span from
    the first opening brace to the last closing brace, whatever \<open>mid\<close> contains
    (newlines included); when \<open>json.loads\<close> turns that span into a dictionary, the
    adapter returns its \<open>category\<close>, or \<open>Produtivo\<close> when the key is absent, and its
    \<open>reply\<close>, or the empty string when the key is absent;
  \<^item> if \<open>conteudo\<close> has no opening brace followed by a closing brace, the adapter
    returns \<open>Produtivo\<close> with the whole of \<open>conteudo\<close> as the reply.
\<close>

theorem classificar_com_openai_json_span:
  assumes cfg: "openai_available e" "api_key e = Some k" "k \<noteq> []"
    and resp: "chat_completion e (prompt texto) = Inr (PStr conteudo)"
  shows
   "(\<forall>pre mid post. conteudo = pre @ [123] @ mid @ [125] @ post \<and> 123 \<notin> set pre \<and> 125 \<notin> set post \<longrightarrow>
       re_search json_span conteudo = Some ([123] @ mid @ [125]) \<and>
       (\<forall>d. json_loads e ([123] @ mid @ [125]) = Inr (PDict d) \<longrightarrow>
          (\<exists>log'. classificar_com_openai e texto log =
             Inr (Some (case map_of d (cp ''category'') of None \<Rightarrow> PStr Produtivo | Some c \<Rightarrow> c,
                        case map_of d (cp ''reply'') of None \<Rightarrow> PStr [] | Some r \<Rightarrow> r), log')))) \<and>
    (\<not> (\<exists>pre mid post. conteudo = pre @ [123] @ mid @ [125] @ post) \<longrightarrow>
       (\<exists>log'. classificar_com_openai e texto log =
          Inr (Some (PStr Produtivo, PStr conteudo), log')))"
proof (intro conjI allI impI)
  fix pre mid post
  assume h: "conteudo = pre @ [123] @ mid @ [125] @ post \<and> 123 \<notin> set pre \<and> 125 \<notin> set post"
  then show s: "re_search json_span conteudo = Some ([123] @ mid @ [125])"
    using brace_span_found [of pre post mid] by simp
  fix d
  assume "json_loads e ([123] @ mid @ [125]) = Inr (PDict d)"
  from remote_parsed [OF cfg resp s this, of log]
  show "\<exists>log'. classificar_com_openai e texto log =
             Inr (Some (case map_of d (cp ''category'') of None \<Rightarrow> PStr Produtivo | Some c \<Rightarrow> c,
                        case map_of d (cp ''reply'') of None \<Rightarrow> PStr [] | Some r \<Rightarrow> r), log')"
    by (simp add: dict_get_def)
next
  assume "\<not> (\<exists>pre mid post. conteudo = pre @ [123] @ mid @ [125] @ post)"
  then have "re_search json_span conteudo = None" by (rule brace_span_none)
  from remote_no_span [OF cfg resp this, of log]
  show "\<exists>log'. classificar_com_openai e texto log = Inr (Some (PStr Produtivo, PStr conteudo), log')"
    by simp
qed

text \<open>
  A response with text around a JSON object that has no \<open>category\<close>, and a response
  without braces.
\<close>

theorem classificar_com_openai_json_span_witness:
  "re_search json_span (cp ''Segue: '' @ json_reply_only @ cp '' fim'') = Some json_reply_only \<and>
   (\<exists>log'. classificar_com_openai env_reply_only (cp ''oi'') [] =
      Inr (Some (PStr Produtivo, PStr (cp ''ok'')), log')) \<and>
   (\<exists>log'. classificar_com_openai env_plain_text (cp ''oi'') [] =
      Inr (Some (PStr Produtivo, PStr (cp ''Produtivo'')), log'))"
proof -
  let ?mid = "[34] @ cp ''reply'' @ [34] @ cp '': '' @ [34] @ cp ''ok'' @ [34]"
  have span: "[123] @ ?mid @ [125] = json_reply_only"
    by (simp add: json_reply_only_def cp_def)
  have a1: "openai_available env_reply_only" "api_key env_reply_only = Some (cp ''sk-test'')"
    "cp ''sk-test'' \<noteq> []"
    "chat_completion env_reply_only (prompt (cp ''oi'')) =
       Inr (PStr (cp ''Segue: '' @ json_reply_only @ cp '' fim''))"
    by (simp_all add: env_reply_only_def env_api_down_def env_local_def cp_def)
  have dec: "cp ''Segue: '' @ json_reply_only @ cp '' fim'' =
       cp ''Segue: '' @ [123] @ ?mid @ [125] @ cp '' fim'' \<and>
       123 \<notin> set (cp ''Segue: '') \<and> 125 \<notin> set (cp '' fim'')"
    by (simp add: json_reply_only_def cp_def)
  have js: "json_loads env_reply_only ([123] @ ?mid @ [125]) =
       Inr (PDict [(cp ''reply'', PStr (cp ''ok''))])"
    unfolding span by (simp add: env_reply_only_def)
  note t1 = classificar_com_openai_json_span [OF a1, of "[]", THEN conjunct1, rule_format, OF dec]
  have r1: "re_search json_span (cp ''Segue: '' @ json_reply_only @ cp '' fim'') = Some json_reply_only"
    using t1 [THEN conjunct1] unfolding span .
  have r2: "\<exists>log'. classificar_com_openai env_reply_only (cp ''oi'') [] =
      Inr (Some (PStr Produtivo, PStr (cp ''ok'')), log')"
    using t1 [THEN conjunct2, rule_format, OF js] by (simp add: cp_def)
  have a2: "openai_available env_plain_text" "api_key env_plain_text = Some (cp ''sk-test'')"
    "cp ''sk-test'' \<noteq> []"
    "chat_completion env_plain_text (prompt (cp ''oi'')) = Inr (PStr (cp ''Produtivo''))"
    by (simp_all add: env_plain_text_def env_api_down_def env_local_def cp_def)
  have none: "\<not> (\<exists>pre mid post. cp ''Produtivo'' = pre @ [123] @ mid @ [125] @ post)"
  proof
    assume "\<exists>pre mid post. cp ''Produtivo'' = pre @ [123] @ mid @ [125] @ post"
    then obtain pre mid post where "cp ''Produtivo'' = pre @ [123] @ mid @ [125] @ post"
      by blast
    then have "set (cp ''Produtivo'') = set (pre @ [123] @ mid @ [125] @ post)" by simp
    then have "123 \<in> set (cp ''Produtivo'')" by simp
    then show False by (simp add: cp_def)
  qed
  have r3: "\<exists>log'. classificar_com_openai env_plain_text (cp ''oi'') [] =
      Inr (Some (PStr Produtivo, PStr (cp ''Produtivo'')), log')"
    using classificar_com_openai_json_span [OF a2, of "[]", THEN conjunct2, rule_format, OF none] .
  from r1 r2 r3 show ?thesis by blast
qed

text \<open>
  Claim C8, as amended. Every reply of the keyword fallback is a non-empty string. A reply
  of a successful remote classification is whatever the response carries: the whole
  response text when it has no brace span, and otherwise the \<open>reply\<close> entry of the
  parsed dictionary, or the empty string when the dictionary has no such entry. It can be
  empty, and it need not be a string.
\<close>

theorem reply_nonempty_fallback_only:
  "(\<exists>cat reply log'. classificar_fallback e texto log = Inr ((cat, PStr reply), log') \<and>
       reply \<noteq> []) \<and>
   (\<forall>cat reply log'. classificar_com_openai e texto log = Inr (Some (cat, reply), log') \<longrightarrow>
      (\<exists>conteudo. chat_completion e (prompt texto) = Inr (PStr conteudo) \<and>
         ((re_search json_span conteudo = None \<and> reply = PStr conteudo) \<or>
          (\<exists>m d. re_search json_span conteudo = Some m \<and> json_loads e m = Inr (PDict d) \<and>
             reply = (case map_of d (cp ''reply'') of None \<Rightarrow> PStr [] | Some r \<Rightarrow> r)))))"
proof (intro conjI allI impI)
  show "\<exists>cat reply log'. classificar_fallback e texto log = Inr ((cat, PStr reply), log') \<and>
       reply \<noteq> []"
    by (rule fallback_reply_not_empty)
next
  fix cat reply log'
  assume "classificar_com_openai e texto log = Inr (Some (cat, reply), log')"
  then have "remote_body e texto log = Inr (Some (cat, reply), log')"
    by (rule remote_Some_body)
  then show "\<exists>conteudo. chat_completion e (prompt texto) = Inr (PStr conteudo) \<and>
         ((re_search json_span conteudo = None \<and> reply = PStr conteudo) \<or>
          (\<exists>m d. re_search json_span conteudo = Some m \<and> json_loads e m = Inr (PDict d) \<and>
             reply = (case map_of d (cp ''reply'') of None \<Rightarrow> PStr [] | Some r \<Rightarrow> r)))"
    by (rule remote_body_Some)
qed

text \<open>
  A successful remote classification with an empty reply: the remote model answers
  \<^verbatim>\<open>{"category": "Improdutivo"}\<close>, which has no \<open>reply\<close> entry.
\<close>

theorem remote_reply_empty:
  "classificar_email env_category_only (cp ''oi'') [] =
     Inr ((PStr Improdutivo, PStr []),
          [\<lparr>ts = cp ''2024-01-01T00:00:00'', categoria = PStr Improdutivo, snippet = cp ''oi''\<rparr>])"
  by (simp add: run_defs)

text \<open>A remote reply taken from the \<open>reply\<close> entry of the parsed dictionary.\<close>

theorem reply_nonempty_fallback_only_witness:
  "(\<exists>cat reply log'. classificar_fallback env_reply_only (cp ''oi'') [] =
       Inr ((cat, PStr reply), log') \<and> reply \<noteq> []) \<and>
   (\<exists>conteudo. chat_completion env_reply_only (prompt (cp ''oi'')) = Inr (PStr conteudo) \<and>
         ((re_search json_span conteudo = None \<and> PStr (cp ''ok'') = PStr conteudo) \<or>
          (\<exists>m d. re_search json_span conteudo = Some m \<and>
             json_loads env_reply_only m = Inr (PDict d) \<and>
             PStr (cp ''ok'') = (case map_of d (cp ''reply'') of None \<Rightarrow> PStr [] | Some r \<Rightarrow> r))))"
proof -
  have run: "classificar_com_openai env_reply_only (cp ''oi'') [] =
     Inr (Some (PStr Produtivo, PStr (cp ''ok'')),
          [\<lparr>ts = cp ''2024-01-01T00:00:00'', categoria = PStr Produtivo, snippet = cp ''oi''\<rparr>])"
    by (simp add: run_defs)
  from reply_nonempty_fallback_only [of env_reply_only "cp ''oi''" "[]"] run show ?thesis by blast
qed

end
